theory Spec2Isabelle
  imports Complex_Main
begin

section \<open>Continuous fee minting simulation (cfm.py)\<close>

text \<open>
  The script (Python 2) is modelled in idealised real arithmetic: a Python float is a
  \<open>real\<close>, a Python int is an \<open>int\<close>. Rounding, overflow of floats and the values
  \<open>nan\<close> and \<open>inf\<close> are outside the model. Every exception the interpreter raises on
  the way (a division by zero, a power that is not defined, a date out of range in
  \<open>pretty_delta\<close>, a rejected argument) is a value \<open>Inl e\<close>.
  The strings that are logged and printed are not built; the numbers they are built
  from are kept in the records \<open>tick_log\<close> and \<open>summary_line\<close>. The rendering
  \<open>pretty_time\<close> of a clock value, whose range depends on the platform's
  \<open>time_t\<close>, is not modelled. The random source is a parameter: a run is given by the
  list of the values \<open>random.random()\<close> returns.
\<close>

subsection \<open>Exceptions and arithmetic of the interpreter\<close>

datatype error = ArgumentTypeError | ZeroDivisionError | ValueError | OverflowError

text \<open>\<open>int(x)\<close> of a float truncates towards zero.\<close>

definition py_int :: "real \<Rightarrow> int" where
  "py_int x = (if 0 \<le> x then \<lfloor>x\<rfloor> else \<lceil>x\<rceil>)"

text \<open>\<open>a / b\<close> on floats raises on a zero divisor.\<close>

definition py_div :: "real \<Rightarrow> real \<Rightarrow> error + real" where
  "py_div a b = (if b = 0 then Inl ZeroDivisionError else Inr (a / b))"

text \<open>
  \<open>pow(x, y)\<close> on floats: zero to a negative power raises ZeroDivisionError, a negative
  base with a fractional exponent raises ValueError, and \<open>pow(0.0, 0.0)\<close> is 1.
\<close>

definition py_pow :: "real \<Rightarrow> real \<Rightarrow> error + real" where
  "py_pow x y =
     (if x = 0 then
        (if y < 0 then Inl ZeroDivisionError else if y = 0 then Inr 1 else Inr 0)
      else if x < 0 then
        (if y = of_int \<lfloor>y\<rfloor> then Inr (x powi \<lfloor>y\<rfloor>) else Inl ValueError)
      else Inr (x powr y))"

text \<open>
  \<open>pretty_delta\<close>: \<open>datetime(1,1,1) + timedelta(seconds=int(seconds))\<close> raises
  OverflowError when the sum leaves the years 1 to 9999, that is when the whole seconds
  are negative or reach 3652059 days. The result stands for the formatted string: the
  whole seconds it is formatted from.
\<close>

definition pretty_delta :: "real \<Rightarrow> error + int" where
  "pretty_delta seconds =
     (let n = py_int seconds
      in if n < 0 \<or> 3652059 * 86400 \<le> n then Inl OverflowError else Inr n)"

subsection \<open>Argument validation\<close>

definition percentage :: "real \<Rightarrow> error + real" where
  "percentage x = (if x < 0.0 \<or> x > 1.0 then Inl ArgumentTypeError else Inr x)"

definition positive_int :: "int \<Rightarrow> error + int" where
  "positive_int x = (if real_of_int x \<le> 0.0 then Inl ArgumentTypeError else Inr x)"

subsection \<open>Constants\<close>

definition fund_value :: real where "fund_value = 4000000.00"
definition init_shares :: real where "init_shares = 1000.0"
definition customer_shares :: real where "customer_shares = 25.0"
definition sim_periods :: int where "sim_periods = 10"
definition xlm_price :: real where "xlm_price = 0.45"
definition stroop_per_tx :: real where "stroop_per_tx = 100"
definition stroop_per_xlm :: real where "stroop_per_xlm = 0.0001"

subsection \<open>User parameters and the derived configuration\<close>

text \<open>The parsed command line, after \<open>float\<close> and \<open>int\<close> have read the strings.\<close>

record args =
  arg_fee :: real
  arg_period :: int
  arg_mint :: int
  arg_noise :: int
  arg_drift :: real
  arg_tolerance :: real

record config =
  mgmt_fee :: real
  inflation_rate :: real
  mgmt_fee_period :: int
  mint_period :: int
  mint_period_noise :: int
  clock_drift :: real
  fee_tolerance :: real

definition default_args :: args where
  "default_args = \<lparr>arg_fee = 0.02, arg_period = 365, arg_mint = 300, arg_noise = 240,
     arg_drift = 0.001, arg_tolerance = 1.00\<rparr>"

text \<open>
  Lines 59 to 84: the type functions of the parser, the derived parameters, then the
  check of the noise against the mint period.
\<close>

definition startup :: "args \<Rightarrow> error + config" where
  "startup a =
     (case percentage (arg_fee a) of Inl e \<Rightarrow> Inl e | Inr f \<Rightarrow>
     (case positive_int (arg_period a) of Inl e \<Rightarrow> Inl e | Inr p \<Rightarrow>
     (case positive_int (arg_mint a) of Inl e \<Rightarrow> Inl e | Inr m \<Rightarrow>
     (case positive_int (arg_noise a) of Inl e \<Rightarrow> Inl e | Inr n \<Rightarrow>
     (case py_div 1.0 (1.0 - f) of Inl e \<Rightarrow> Inl e | Inr ir \<Rightarrow>
        if n > m then Inl ArgumentTypeError
        else Inr \<lparr>mgmt_fee = f, inflation_rate = ir, mgmt_fee_period = p * 60 * 60 * 24,
               mint_period = m, mint_period_noise = n, clock_drift = arg_drift a,
               fee_tolerance = arg_tolerance a\<rparr>)))))"

subsection \<open>Simulation state\<close>

record state =
  fund_shares :: real
  this_timestamp :: real
  last_timestamp :: real
  earnings :: real
  tx_fees :: real
  num_mints :: int
  num_skips :: int
  mint :: real

definition init_state :: state where
  "init_state = \<lparr>fund_shares = init_shares, this_timestamp = 0.0, last_timestamp = 0.0,
     earnings = 0.0, tx_fees = 0.0, num_mints = 0, num_skips = 0, mint = 0.0\<rparr>"

definition init_customer_value :: real where
  "init_customer_value = (fund_value / init_shares) * customer_shares"

text \<open>The numbers of the end-of-period line (lines 178 to 186).\<close>

record summary_line =
  sum_time :: real
  sum_mints :: int
  sum_start :: bool
  sum_skips :: int
  sum_shares :: real
  sum_price :: real
  sum_customer_value :: real
  sum_err :: real
  sum_earnings :: real
  sum_tx_fees :: real

text \<open>
  The variables local to one iteration of the loop. \<open>shares_scalar\<close> is bound only
  on the branch that computes the minting formula.
\<close>

record tick_log =
  new_period :: bool
  skipped :: bool
  this_period :: int
  time_delta :: real
  shares_scalar :: "real option"
  usd_per_day :: real
  delta_shown :: int
  summary :: "summary_line option"

subsection \<open>One iteration of the loop\<close>

text \<open>
  Lines 115 to 126: the jittered wait and the check for a new fee period.
  \<open>rnd\<close> is the value of \<open>random.random()\<close>, a float in \<open>[0, 1)\<close>. The result
  is the state with the clock advanced, \<open>new_period\<close> and \<open>this_period\<close>.
  After a snap both timestamps are Python ints, and the interpreter (Python 2) takes the
  quotient \<open>last_timestamp / mgmt_fee_period\<close> of two ints by floor division; the ints
  are multiples of the period then, so the quotient is the same as the real one.
\<close>

definition clock_step :: "config \<Rightarrow> real \<Rightarrow> state \<Rightarrow> error + (state \<times> bool \<times> int)" where
  "clock_step cfg rnd s =
     (let r = (rnd * 2.0) - 1.0;
          wait = real_of_int (mint_period cfg) + (r * real_of_int (mint_period_noise cfg));
          t = this_timestamp s + wait
      in case py_div t (real_of_int (mgmt_fee_period cfg)) of Inl e \<Rightarrow> Inl e | Inr q \<Rightarrow>
        (case py_div (last_timestamp s) (real_of_int (mgmt_fee_period cfg)) of
           Inl e \<Rightarrow> Inl e
         | Inr q' \<Rightarrow>
             let tp = py_int q; lp = py_int q'
             in if tp > lp
                then Inr (s\<lparr>this_timestamp := real_of_int (tp * mgmt_fee_period cfg)\<rparr>, True, tp)
                else Inr (s\<lparr>this_timestamp := t\<rparr>, False, tp)))"

definition this_tx_fee :: real where
  "this_tx_fee = stroop_per_xlm * xlm_price * stroop_per_tx"

text \<open>
  Lines 132 to 162: the bootstrap branch, or the minting formula and the throttle.
  The result is the state, \<open>new_period\<close>, \<open>skipped\<close>, \<open>usd_per_day\<close>,
  \<open>shares_scalar\<close> and \<open>display_time\<close>.
\<close>

definition mint_step ::
  "config \<Rightarrow> state \<Rightarrow> bool \<Rightarrow> real \<Rightarrow>
     error + (state \<times> bool \<times> bool \<times> real \<times> real option \<times> real)" where
  "mint_step cfg s np td =
     (if last_timestamp s = 0 then Inr (s, True, False, 0.0, None, last_timestamp s)
      else
        case py_div td (real_of_int (mgmt_fee_period cfg)) of Inl e \<Rightarrow> Inl e
        | Inr period_slice \<Rightarrow>
       (case py_pow (inflation_rate cfg) period_slice of Inl e \<Rightarrow> Inl e
        | Inr sc \<Rightarrow>
       (case py_div (this_timestamp s) (60 * 60 * 24) of Inl e \<Rightarrow> Inl e
        | Inr sim_days \<Rightarrow>
       (case py_div (tx_fees s + this_tx_fee) sim_days of Inl e \<Rightarrow> Inl e
        | Inr upd \<Rightarrow>
            if upd > fee_tolerance cfg
            then Inr (s\<lparr>num_skips := num_skips s + 1, mint := 0.0\<rparr>,
                      np, True, upd, Some sc, this_timestamp s)
            else Inr (s\<lparr>mint := fund_shares s * (sc - 1.0),
                        tx_fees := tx_fees s + this_tx_fee,
                        num_mints := num_mints s + 1\<rparr>,
                      np, False, upd, Some sc, this_timestamp s)))))"

text \<open>
  Lines 164 to 189: the dilution, the log line (which formats the time delta), the
  summary of a period, and the commit of the clock.
\<close>

definition period_summary ::
  "config \<Rightarrow> state \<Rightarrow> int \<Rightarrow> real \<Rightarrow> real \<Rightarrow> real \<Rightarrow> real \<Rightarrow> real \<Rightarrow> error + summary_line" where
  "period_summary cfg s tp display_time shares fund_price customer_value earn =
     (case py_pow (1.0 - mgmt_fee cfg) (real_of_int tp) of Inl e \<Rightarrow> Inl e
      | Inr pw \<Rightarrow>
          let ideal = init_customer_value * pw
          in Inr \<lparr>sum_time = display_time, sum_mints = num_mints s,
                  sum_start = (num_mints s = 0), sum_skips = num_skips s,
                  sum_shares = shares, sum_price = fund_price,
                  sum_customer_value = customer_value,
                  sum_err = \<bar>customer_value - ideal\<bar>,
                  sum_earnings = earn, sum_tx_fees = tx_fees s\<rparr>)"

definition report_step ::
  "config \<Rightarrow> state \<Rightarrow> bool \<Rightarrow> bool \<Rightarrow> real \<Rightarrow> real option \<Rightarrow> real \<Rightarrow> int \<Rightarrow> real \<Rightarrow>
     error + (tick_log \<times> state)" where
  "report_step cfg s np sk upd sc display_time tp td =
     (let shares = fund_shares s + mint s
      in case py_div fund_value shares of Inl e \<Rightarrow> Inl e | Inr fund_price \<Rightarrow>
         let earn = earnings s + (mint s * fund_price);
             customer_value = fund_price * customer_shares
         in (case pretty_delta td of Inl e \<Rightarrow> Inl e | Inr shown \<Rightarrow>
           (case (if np
                  then map_sum id Some
                         (period_summary cfg s tp display_time shares fund_price customer_value earn)
                  else Inr None) of
              Inl e \<Rightarrow> Inl e
            | Inr sm \<Rightarrow>
                Inr (\<lparr>new_period = np, skipped = sk, this_period = tp, time_delta = td,
                       shares_scalar = sc, usd_per_day = upd, delta_shown = shown,
                       summary = sm\<rparr>,
                     s\<lparr>fund_shares := shares, earnings := earn,
                       num_mints := (if np then 0 else num_mints s),
                       num_skips := (if np then 0 else num_skips s),
                       last_timestamp :=
                         (if \<not> sk \<or> np then this_timestamp s else last_timestamp s)\<rparr>))))"

text \<open>The body of the loop, lines 115 to 189.\<close>

definition tick :: "config \<Rightarrow> real \<Rightarrow> state \<Rightarrow> error + (tick_log \<times> state)" where
  "tick cfg rnd s =
     (case clock_step cfg rnd s of Inl e \<Rightarrow> Inl e
      | Inr (s1, np, tp) \<Rightarrow>
          let td = (this_timestamp s1 - last_timestamp s1) * (1.0 + clock_drift cfg)
          in (case mint_step cfg s1 np td of Inl e \<Rightarrow> Inl e
              | Inr (s2, np', sk, upd, sc, display_time) \<Rightarrow>
                  report_step cfg s2 np' sk upd sc display_time tp td))"

subsection \<open>The loop\<close>

text \<open>
  Line 113. The list holds the values \<open>random.random()\<close> returns, one for each
  iteration. The trace lists the iterations that completed, each with its log and the
  state it leaves; it ends when the loop condition fails, when an iteration raises, or
  when the values run out.
\<close>

definition loop_cond :: "config \<Rightarrow> state \<Rightarrow> bool" where
  "loop_cond cfg s \<longleftrightarrow> \<not> this_timestamp s > real_of_int (mgmt_fee_period cfg * sim_periods)"

fun sim_trace :: "config \<Rightarrow> real list \<Rightarrow> state \<Rightarrow> (tick_log \<times> state) list" where
  "sim_trace cfg [] s = []"
| "sim_trace cfg (rnd # rnds) s =
     (if loop_cond cfg s
      then (case tick cfg rnd s of Inl e \<Rightarrow> []
            | Inr (lg, s') \<Rightarrow> (lg, s') # sim_trace cfg rnds s')
      else [])"

datatype outcome = Completed state | Raised error | Running state

fun sim_loop :: "config \<Rightarrow> real list \<Rightarrow> state \<Rightarrow> outcome" where
  "sim_loop cfg [] s = (if loop_cond cfg s then Running s else Completed s)"
| "sim_loop cfg (rnd # rnds) s =
     (if loop_cond cfg s
      then (case tick cfg rnd s of Inl e \<Rightarrow> Raised e
            | Inr (lg, s') \<Rightarrow> sim_loop cfg rnds s')
      else Completed s)"

text \<open>The whole script: validation, then the loop from the initial state.\<close>

definition main :: "args \<Rightarrow> real list \<Rightarrow> outcome" where
  "main a rnds = (case startup a of Inl e \<Rightarrow> Raised e | Inr cfg \<Rightarrow> sim_loop cfg rnds init_state)"

subsection \<open>The quantities one iteration computes\<close>

text \<open>
  Names for the expressions of the loop body, as functions of the state the iteration
  starts from and of the random value it draws: the wait, the proposed clock, the test
  for a new period, the clock after the snap, the drift-adjusted time delta, the growth
  factor of the minting formula and the fee rate the throttle compares.
\<close>

definition wait_of :: "config \<Rightarrow> real \<Rightarrow> real" where
  "wait_of cfg rnd =
     real_of_int (mint_period cfg) + ((rnd * 2 - 1) * real_of_int (mint_period_noise cfg))"

definition proposed :: "config \<Rightarrow> real \<Rightarrow> state \<Rightarrow> real" where
  "proposed cfg rnd s = this_timestamp s + wait_of cfg rnd"

definition crossing :: "config \<Rightarrow> real \<Rightarrow> state \<Rightarrow> bool" where
  "crossing cfg rnd s \<longleftrightarrow>
     py_int (proposed cfg rnd s / real_of_int (mgmt_fee_period cfg))
       > py_int (last_timestamp s / real_of_int (mgmt_fee_period cfg))"

definition clock_of :: "config \<Rightarrow> real \<Rightarrow> state \<Rightarrow> real" where
  "clock_of cfg rnd s =
     (if crossing cfg rnd s
      then real_of_int (py_int (proposed cfg rnd s / real_of_int (mgmt_fee_period cfg))
                          * mgmt_fee_period cfg)
      else proposed cfg rnd s)"

definition delta_of :: "config \<Rightarrow> real \<Rightarrow> state \<Rightarrow> real" where
  "delta_of cfg rnd s = (clock_of cfg rnd s - last_timestamp s) * (1 + clock_drift cfg)"

definition scalar_of :: "config \<Rightarrow> real \<Rightarrow> state \<Rightarrow> real" where
  "scalar_of cfg rnd s =
     inflation_rate cfg powr (delta_of cfg rnd s / real_of_int (mgmt_fee_period cfg))"

definition rate_of :: "config \<Rightarrow> real \<Rightarrow> state \<Rightarrow> real" where
  "rate_of cfg rnd s = (tx_fees s + this_tx_fee) / (clock_of cfg rnd s / 86400)"

subsection \<open>Invariants of a run\<close>

text \<open>
  What every state of a run of an accepted configuration satisfies: the committed clock
  is not negative and not ahead of the clock, and both are in the same fee period; the
  shares are not below the initial shares, and the mint is still zero while the
  bootstrap lasts.
\<close>

definition clock_inv :: "config \<Rightarrow> state \<Rightarrow> bool" where
  "clock_inv cfg s \<longleftrightarrow>
     0 \<le> last_timestamp s \<and> last_timestamp s \<le> this_timestamp s \<and>
     \<lfloor>this_timestamp s / real_of_int (mgmt_fee_period cfg)\<rfloor>
       = \<lfloor>last_timestamp s / real_of_int (mgmt_fee_period cfg)\<rfloor>"


text \<open>
  The product of the growth factors (\<open>shares_scalar\<close>) of the ticks of a trace that
  compute one; the bootstrap tick computes none.
\<close>

definition growth_product :: "(tick_log \<times> state) list \<Rightarrow> real" where
  "growth_product tr = prod_list (List.map_filter (\<lambda>(lg, s). shares_scalar lg) tr)"

subsection \<open>Example inputs\<close>

text \<open>
  Example runs. \<open>half_day\<close>: a fee period of one day, a mint every twelve hours, a fee
  of three quarters (an inflation rate of 4), no drift. \<open>throttled\<close>: a mint every
  eight hours and a fee tolerance of zero, so that every tick after the bootstrap is over
  the tolerance. \<open>drift\<close>: the defaults with a clock drift below \<open>-1\<close>.
  \<open>tick_view\<close> and \<open>count_view\<close> select what a run is observed by.
\<close>

definition half_day_args :: args where
  "half_day_args = \<lparr>arg_fee = 3/4, arg_period = 1, arg_mint = 43200, arg_noise = 1,
     arg_drift = 0, arg_tolerance = 1\<rparr>"

definition half_day_cfg :: config where
  "half_day_cfg = \<lparr>mgmt_fee = 3/4, inflation_rate = 4, mgmt_fee_period = 86400,
     mint_period = 43200, mint_period_noise = 1, clock_drift = 0, fee_tolerance = 1\<rparr>"

definition throttled_args :: args where
  "throttled_args = \<lparr>arg_fee = 1/2, arg_period = 1, arg_mint = 28800, arg_noise = 1,
     arg_drift = 0, arg_tolerance = 0\<rparr>"

definition throttled_cfg :: config where
  "throttled_cfg = \<lparr>mgmt_fee = 1/2, inflation_rate = 2, mgmt_fee_period = 86400,
     mint_period = 28800, mint_period_noise = 1, clock_drift = 0, fee_tolerance = 0\<rparr>"

definition tick_view ::
  "tick_log \<times> state \<Rightarrow> bool \<times> bool \<times> real \<times> real \<times> real \<times> real" where
  "tick_view = (\<lambda>(lg, s). (new_period lg, skipped lg, this_timestamp s, last_timestamp s,
      fund_shares s, tx_fees s))"




text \<open>
  The state the \<open>half_day\<close> run is in after its first boundary tick, at the end of
  the first day.
\<close>

definition half_day_boundary :: state where
  "half_day_boundary = \<lparr>fund_shares = 2000, this_timestamp = 86400, last_timestamp = 86400,
     earnings = 2000000, tx_fees = 9/2000, num_mints = 0, num_skips = 0, mint = 1000\<rparr>"

text \<open>
  The states the \<open>throttled\<close> run is in after its bootstrap tick and after its
  second tick, which is skipped; the state of the \<open>half_day\<close> run after its bootstrap
  tick. \<open>tight\<close>: the \<open>half_day\<close> run with a fee tolerance of 0.004 USD a day.
\<close>

definition throttled_started :: state where
  "throttled_started = \<lparr>fund_shares = 1000, this_timestamp = 28800, last_timestamp = 28800,
     earnings = 0, tx_fees = 0, num_mints = 0, num_skips = 0, mint = 0\<rparr>"

definition throttled_skipped :: state where
  "throttled_skipped = \<lparr>fund_shares = 1000, this_timestamp = 57600, last_timestamp = 28800,
     earnings = 0, tx_fees = 0, num_mints = 0, num_skips = 1, mint = 0\<rparr>"

definition half_day_started :: state where
  "half_day_started = \<lparr>fund_shares = 1000, this_timestamp = 43200, last_timestamp = 43200,
     earnings = 0, tx_fees = 0, num_mints = 0, num_skips = 0, mint = 0\<rparr>"



text \<open>
  Inputs at the edges of the validation. \<open>equal_noise\<close>: the defaults with the noise
  equal to the mint period. \<open>full_fee\<close>: the defaults with a fee of 1.0.
  \<open>backward\<close>: the defaults with a clock drift of \<open>-2\<close>.
\<close>

definition equal_noise_args :: args where
  "equal_noise_args = default_args\<lparr>arg_noise := 300\<rparr>"

definition equal_noise_cfg :: config where
  "equal_noise_cfg = \<lparr>mgmt_fee = 0.02, inflation_rate = 50 / 49, mgmt_fee_period = 31536000,
     mint_period = 300, mint_period_noise = 300, clock_drift = 0.001, fee_tolerance = 1\<rparr>"

definition full_fee_args :: args where
  "full_fee_args = default_args\<lparr>arg_fee := 1.0\<rparr>"

definition backward_args :: args where
  "backward_args = default_args\<lparr>arg_drift := - 2\<rparr>"

definition backward_cfg :: config where
  "backward_cfg = \<lparr>mgmt_fee = 0.02, inflation_rate = 50 / 49, mgmt_fee_period = 31536000,
     mint_period = 300, mint_period_noise = 240, clock_drift = - 2, fee_tolerance = 1\<rparr>"

section \<open>Properties\<close>

subsection \<open>Accepted configurations\<close>

lemma startup_InrD:
  assumes "startup a = Inr cfg"
  shows "0 \<le> mgmt_fee cfg" "mgmt_fee cfg < 1" "inflation_rate cfg = 1 / (1 - mgmt_fee cfg)"
    "0 < mgmt_fee_period cfg" "0 < mint_period cfg" "0 < mint_period_noise cfg"
    "mint_period_noise cfg \<le> mint_period cfg"
    "clock_drift cfg = arg_drift a" "fee_tolerance cfg = arg_tolerance a"
    "mgmt_fee cfg = arg_fee a" "mgmt_fee_period cfg = arg_period a * 86400"
    "mint_period cfg = arg_mint a" "mint_period_noise cfg = arg_noise a"
  using assms
  by (auto simp: startup_def percentage_def positive_int_def py_div_def
      split: sum.splits if_splits)

lemma inflation_ge_one:
  assumes "startup a = Inr cfg"
  shows "1 \<le> inflation_rate cfg"
  using startup_InrD(1-3)[OF assms] by simp

subsection \<open>The result of one iteration\<close>

lemma clock_step_eq:
  assumes "mgmt_fee_period cfg \<noteq> 0"
  shows "clock_step cfg rnd s =
     Inr (s\<lparr>this_timestamp := clock_of cfg rnd s\<rparr>, crossing cfg rnd s,
          py_int (proposed cfg rnd s / real_of_int (mgmt_fee_period cfg)))"
  using assms
  by (simp add: clock_step_def py_div_def Let_def wait_of_def proposed_def crossing_def clock_of_def)


lemma tick_InrD:
  assumes P: "mgmt_fee_period cfg \<noteq> 0" and t: "tick cfg rnd s = Inr (lg, s')"
  obtains s2 np sk upd sc disp where
    "mint_step cfg (s\<lparr>this_timestamp := clock_of cfg rnd s\<rparr>) (crossing cfg rnd s)
        (delta_of cfg rnd s) = Inr (s2, np, sk, upd, sc, disp)"
    "report_step cfg s2 np sk upd sc disp
        (py_int (proposed cfg rnd s / real_of_int (mgmt_fee_period cfg))) (delta_of cfg rnd s)
      = Inr (lg, s')"
  using t
  by (auto simp: tick_def clock_step_eq[OF P] delta_of_def Let_def split: sum.splits)

lemma mint_step_boot:
  assumes "last_timestamp s = 0"
  shows "mint_step cfg s np td = Inr (s, True, False, 0, None, 0)"
  using assms by (simp add: mint_step_def)

lemma mint_step_post:
  assumes "last_timestamp s \<noteq> 0" "mgmt_fee_period cfg \<noteq> 0" "0 < inflation_rate cfg"
    and m: "mint_step cfg s np td = Inr (s2, np', sk, upd, sc, disp)"
  shows "this_timestamp s \<noteq> 0" "np' = np" "disp = this_timestamp s"
    "upd = (tx_fees s + this_tx_fee) / (this_timestamp s / 86400)"
    "sk = (upd > fee_tolerance cfg)"
    "sc = Some (inflation_rate cfg powr (td / real_of_int (mgmt_fee_period cfg)))"
    "s2 = (if sk then s\<lparr>num_skips := num_skips s + 1, mint := 0\<rparr>
           else s\<lparr>mint := fund_shares s * (inflation_rate cfg powr (td / real_of_int (mgmt_fee_period cfg)) - 1),
                  tx_fees := tx_fees s + this_tx_fee, num_mints := num_mints s + 1\<rparr>)"
  using assms
  by (auto simp: mint_step_def py_div_def py_pow_def split: if_splits)

lemma report_step_InrD:
  assumes "report_step cfg s np sk upd sc disp tp td = Inr (lg, s')"
  shows "new_period lg = np" "skipped lg = sk" "this_period lg = tp" "time_delta lg = td"
    "shares_scalar lg = sc" "usd_per_day lg = upd"
    "fund_shares s' = fund_shares s + mint s" "mint s' = mint s" "tx_fees s' = tx_fees s"
    "this_timestamp s' = this_timestamp s"
    "last_timestamp s' = (if \<not> sk \<or> np then this_timestamp s else last_timestamp s)"
    "num_mints s' = (if np then 0 else num_mints s)"
    "num_skips s' = (if np then 0 else num_skips s)"
    "np \<Longrightarrow> \<exists>sm. summary lg = Some sm \<and> sum_mints sm = num_mints s
        \<and> sum_skips sm = num_skips s \<and> sum_start sm = (num_mints s = 0)
        \<and> sum_time sm = disp \<and> sum_tx_fees sm = tx_fees s
        \<and> sum_shares sm = fund_shares s + mint s"
    "\<not> np \<Longrightarrow> summary lg = None"
    "0 \<le> py_int td" "fund_shares s + mint s \<noteq> 0"
  using assms
  by (auto simp: report_step_def period_summary_def pretty_delta_def py_div_def Let_def
      split: sum.splits if_splits)

lemma tick_bootstrap:
  assumes P: "mgmt_fee_period cfg \<noteq> 0" and boot: "last_timestamp s = 0"
    and t: "tick cfg rnd s = Inr (lg, s')"
  shows "new_period lg" "\<not> skipped lg" "shares_scalar lg = None"
    "time_delta lg = delta_of cfg rnd s"
    "this_period lg = py_int (proposed cfg rnd s / real_of_int (mgmt_fee_period cfg))"
    "fund_shares s' = fund_shares s + mint s" "mint s' = mint s" "tx_fees s' = tx_fees s"
    "this_timestamp s' = clock_of cfg rnd s" "last_timestamp s' = clock_of cfg rnd s"
    "num_mints s' = 0" "num_skips s' = 0"
    "\<exists>sm. summary lg = Some sm \<and> sum_mints sm = num_mints s \<and> sum_skips sm = num_skips s
        \<and> sum_start sm = (num_mints s = 0) \<and> sum_time sm = 0"
proof -
  from tick_InrD[OF P t] obtain s2 np sk upd sc disp where
    m: "mint_step cfg (s\<lparr>this_timestamp := clock_of cfg rnd s\<rparr>) (crossing cfg rnd s)
        (delta_of cfg rnd s) = Inr (s2, np, sk, upd, sc, disp)"
    and r: "report_step cfg s2 np sk upd sc disp
        (py_int (proposed cfg rnd s / real_of_int (mgmt_fee_period cfg))) (delta_of cfg rnd s)
      = Inr (lg, s')" by blast
  from m boot have e: "s2 = s\<lparr>this_timestamp := clock_of cfg rnd s\<rparr>" "np" "\<not> sk"
    "sc = None" "disp = 0"
    by (simp_all add: mint_step_boot)
  note R = report_step_InrD[OF r]
  show "new_period lg" "\<not> skipped lg" "shares_scalar lg = None"
    "time_delta lg = delta_of cfg rnd s"
    "this_period lg = py_int (proposed cfg rnd s / real_of_int (mgmt_fee_period cfg))"
    "fund_shares s' = fund_shares s + mint s" "mint s' = mint s" "tx_fees s' = tx_fees s"
    "this_timestamp s' = clock_of cfg rnd s" "last_timestamp s' = clock_of cfg rnd s"
    "num_mints s' = 0" "num_skips s' = 0"
    using R(1-13) e by simp_all
  from R(14) e show "\<exists>sm. summary lg = Some sm \<and> sum_mints sm = num_mints s \<and> sum_skips sm = num_skips s
        \<and> sum_start sm = (num_mints s = 0) \<and> sum_time sm = 0"
    by auto
qed

lemma tick_post:
  assumes P: "mgmt_fee_period cfg \<noteq> 0" and post: "last_timestamp s \<noteq> 0"
    and ir: "0 < inflation_rate cfg"
    and t: "tick cfg rnd s = Inr (lg, s')"
  shows "new_period lg = crossing cfg rnd s" 
    "skipped lg = (rate_of cfg rnd s > fee_tolerance cfg)"
    "shares_scalar lg = Some (scalar_of cfg rnd s)"
    "usd_per_day lg = rate_of cfg rnd s"
    "time_delta lg = delta_of cfg rnd s"
    "this_period lg = py_int (proposed cfg rnd s / real_of_int (mgmt_fee_period cfg))"
    "this_timestamp s' = clock_of cfg rnd s"
    "last_timestamp s' = (if \<not> skipped lg \<or> new_period lg then clock_of cfg rnd s else last_timestamp s)"
    "fund_shares s' = (if skipped lg then fund_shares s else fund_shares s + fund_shares s * (scalar_of cfg rnd s - 1))"
    "mint s' = (if skipped lg then 0 else fund_shares s * (scalar_of cfg rnd s - 1))"
    "tx_fees s' = (if skipped lg then tx_fees s else tx_fees s + this_tx_fee)"
    "num_mints s' = (if new_period lg then 0 else if skipped lg then num_mints s else num_mints s + 1)"
    "num_skips s' = (if new_period lg then 0 else if skipped lg then num_skips s + 1 else num_skips s)"
    "clock_of cfg rnd s \<noteq> 0"
    "new_period lg \<Longrightarrow> \<exists>sm. summary lg = Some sm 
        \<and> sum_mints sm = (if skipped lg then num_mints s else num_mints s + 1)
        \<and> sum_skips sm = (if skipped lg then num_skips s + 1 else num_skips s)
        \<and> sum_tx_fees sm = tx_fees s' \<and> sum_shares sm = fund_shares s'"
    "\<not> new_period lg \<Longrightarrow> summary lg = None"
proof -
  let ?s1 = "s\<lparr>this_timestamp := clock_of cfg rnd s\<rparr>"
  from tick_InrD[OF P t] obtain s2 np sk upd sc disp where
    m: "mint_step cfg ?s1 (crossing cfg rnd s)
        (delta_of cfg rnd s) = Inr (s2, np, sk, upd, sc, disp)"
    and r: "report_step cfg s2 np sk upd sc disp
        (py_int (proposed cfg rnd s / real_of_int (mgmt_fee_period cfg))) (delta_of cfg rnd s)
      = Inr (lg, s')" by blast
  have post1: "last_timestamp ?s1 \<noteq> 0" using post by simp
  note M = mint_step_post[OF post1 P ir m]
  note R = report_step_InrD[OF r]
  have upd: "upd = rate_of cfg rnd s" using M(4) by (simp add: rate_of_def)
  show "new_period lg = crossing cfg rnd s" 
    "skipped lg = (rate_of cfg rnd s > fee_tolerance cfg)"
    "shares_scalar lg = Some (scalar_of cfg rnd s)"
    "usd_per_day lg = rate_of cfg rnd s"
    "time_delta lg = delta_of cfg rnd s"
    "this_period lg = py_int (proposed cfg rnd s / real_of_int (mgmt_fee_period cfg))"
    using R(1-6) M(2,5,6) upd by (simp_all add: scalar_of_def)
  have sk: "skipped lg = sk" and np: "new_period lg = np" using R by simp_all
  show "this_timestamp s' = clock_of cfg rnd s"
    "last_timestamp s' = (if \<not> skipped lg \<or> new_period lg then clock_of cfg rnd s else last_timestamp s)"
    "fund_shares s' = (if skipped lg then fund_shares s else fund_shares s + fund_shares s * (scalar_of cfg rnd s - 1))"
    "mint s' = (if skipped lg then 0 else fund_shares s * (scalar_of cfg rnd s - 1))"
    "tx_fees s' = (if skipped lg then tx_fees s else tx_fees s + this_tx_fee)"
    "num_mints s' = (if new_period lg then 0 else if skipped lg then num_mints s else num_mints s + 1)"
    "num_skips s' = (if new_period lg then 0 else if skipped lg then num_skips s + 1 else num_skips s)"
    using R(7-13) M(7) sk np by (simp_all add: scalar_of_def)
  show "clock_of cfg rnd s \<noteq> 0" using M(1) by simp
  show "\<exists>sm. summary lg = Some sm 
        \<and> sum_mints sm = (if skipped lg then num_mints s else num_mints s + 1)
        \<and> sum_skips sm = (if skipped lg then num_skips s + 1 else num_skips s)
        \<and> sum_tx_fees sm = tx_fees s' \<and> sum_shares sm = fund_shares s'" if "new_period lg"
    using R(14) R(7,9) M(7) sk np that by auto
  show "summary lg = None" if "\<not> new_period lg"
    using R(15) np that by simp
qed

subsection \<open>The clock within one iteration\<close>

lemma wait_nonneg:
  assumes "startup a = Inr cfg" "0 \<le> rnd"
  shows "0 \<le> wait_of cfg rnd"
proof -
  note S = startup_InrD[OF assms(1)]
  have "0 \<le> rnd * 2 * real_of_int (mint_period_noise cfg)"
    using assms(2) S(6) by simp
  moreover have "real_of_int (mint_period_noise cfg) \<le> real_of_int (mint_period cfg)"
    using S(7) by simp
  ultimately show ?thesis
    by (simp add: wait_of_def algebra_simps)
qed

lemma floor_lt_imp_lt_mult:
  fixes x P :: real and n :: int
  assumes "0 < P" "\<lfloor>x / P\<rfloor> < n"
  shows "x < real_of_int n * P"
proof -
  have "x / P < real_of_int n" using assms(2) by (simp add: floor_less_iff)
  then show ?thesis using assms(1) by (simp add: pos_divide_less_eq)
qed

lemma clock_of_facts:
  assumes P: "0 < mgmt_fee_period cfg" and w: "0 \<le> wait_of cfg rnd" and inv: "clock_inv cfg s"
  shows "this_timestamp s \<le> clock_of cfg rnd s"
    "crossing cfg rnd s \<Longrightarrow> this_timestamp s < clock_of cfg rnd s"
    "crossing cfg rnd s \<longleftrightarrow> \<lfloor>this_timestamp s / real_of_int (mgmt_fee_period cfg)\<rfloor> < \<lfloor>proposed cfg rnd s / real_of_int (mgmt_fee_period cfg)\<rfloor>"
    "crossing cfg rnd s \<Longrightarrow> clock_of cfg rnd s = real_of_int (\<lfloor>proposed cfg rnd s / real_of_int (mgmt_fee_period cfg)\<rfloor> * mgmt_fee_period cfg)"
    "\<not> crossing cfg rnd s \<Longrightarrow> clock_of cfg rnd s = proposed cfg rnd s"
    "\<lfloor>clock_of cfg rnd s / real_of_int (mgmt_fee_period cfg)\<rfloor> = \<lfloor>proposed cfg rnd s / real_of_int (mgmt_fee_period cfg)\<rfloor>"
    "\<not> crossing cfg rnd s \<Longrightarrow> \<lfloor>clock_of cfg rnd s / real_of_int (mgmt_fee_period cfg)\<rfloor> = \<lfloor>last_timestamp s / real_of_int (mgmt_fee_period cfg)\<rfloor>"
    "clock_of cfg rnd s \<le> proposed cfg rnd s"
proof -
  let ?P = "real_of_int (mgmt_fee_period cfg)"
  have P': "0 < ?P" using P by simp
  from inv have l0: "0 \<le> last_timestamp s" and lt: "last_timestamp s \<le> this_timestamp s"
    and fl: "\<lfloor>this_timestamp s / ?P\<rfloor> = \<lfloor>last_timestamp s / ?P\<rfloor>"
    by (simp_all add: clock_inv_def)
  have tp: "this_timestamp s \<le> proposed cfg rnd s" using w by (simp add: proposed_def)
  have p0: "0 \<le> proposed cfg rnd s / ?P" using tp lt l0 P' by simp
  have q0: "0 \<le> last_timestamp s / ?P" using l0 P' by simp
  have pi1: "py_int (proposed cfg rnd s / ?P) = \<lfloor>proposed cfg rnd s / ?P\<rfloor>"
    using p0 by (simp add: py_int_def)
  have pi2: "py_int (last_timestamp s / ?P) = \<lfloor>last_timestamp s / ?P\<rfloor>"
    using q0 by (simp add: py_int_def)
  show cr: "crossing cfg rnd s \<longleftrightarrow> \<lfloor>this_timestamp s / ?P\<rfloor> < \<lfloor>proposed cfg rnd s / ?P\<rfloor>"
    by (simp add: crossing_def pi1 pi2 fl)
  show c1: "clock_of cfg rnd s = real_of_int (\<lfloor>proposed cfg rnd s / ?P\<rfloor> * mgmt_fee_period cfg)"
    if "crossing cfg rnd s" using that by (simp add: clock_of_def pi1)
  show c2: "clock_of cfg rnd s = proposed cfg rnd s" if "\<not> crossing cfg rnd s"
    using that by (simp add: clock_of_def)
  show lt': "this_timestamp s < clock_of cfg rnd s" if "crossing cfg rnd s"
  proof -
    from that cr have "\<lfloor>this_timestamp s / ?P\<rfloor> < \<lfloor>proposed cfg rnd s / ?P\<rfloor>" by simp
    from floor_lt_imp_lt_mult[OF P' this] show ?thesis using c1[OF that] by simp
  qed
  show "this_timestamp s \<le> clock_of cfg rnd s"
    using lt' c2 tp by (cases "crossing cfg rnd s") auto
  show fc: "\<lfloor>clock_of cfg rnd s / ?P\<rfloor> = \<lfloor>proposed cfg rnd s / ?P\<rfloor>"
  proof (cases "crossing cfg rnd s")
    case True
    then show ?thesis using c1[OF True] P' by simp
  next
    case False
    then show ?thesis using c2 by simp
  qed
  show "\<lfloor>clock_of cfg rnd s / ?P\<rfloor> = \<lfloor>last_timestamp s / ?P\<rfloor>" if "\<not> crossing cfg rnd s"
  proof -
    have "\<lfloor>this_timestamp s / ?P\<rfloor> \<le> \<lfloor>proposed cfg rnd s / ?P\<rfloor>"
      using tp P' by (intro floor_mono divide_right_mono) simp_all
    with that cr fl fc show ?thesis by simp
  qed
  show "clock_of cfg rnd s \<le> proposed cfg rnd s"
  proof (cases "crossing cfg rnd s")
    case True
    have "real_of_int \<lfloor>proposed cfg rnd s / ?P\<rfloor> \<le> proposed cfg rnd s / ?P"
      by (rule of_int_floor_le)
    then have "real_of_int \<lfloor>proposed cfg rnd s / ?P\<rfloor> * ?P \<le> proposed cfg rnd s"
      using P' by (simp only: pos_le_divide_eq)
    then show ?thesis using c1[OF True] by simp
  next
    case False
    then show ?thesis using c2 by simp
  qed
qed

lemma tick_clock_inv:
  assumes st: "startup a = Inr cfg" and r: "0 \<le> rnd" and inv: "clock_inv cfg s"
    and t: "tick cfg rnd s = Inr (lg, s')"
  shows "clock_inv cfg s'" "this_timestamp s \<le> this_timestamp s'"
    "this_timestamp s' = clock_of cfg rnd s"
proof -
  note S = startup_InrD[OF st]
  have P: "0 < mgmt_fee_period cfg" and P0: "mgmt_fee_period cfg \<noteq> 0" using S(4) by simp_all
  have ir: "0 < inflation_rate cfg" using inflation_ge_one[OF st] by simp
  note C = clock_of_facts[OF P wait_nonneg[OF st r] inv]
  from inv have l0: "0 \<le> last_timestamp s" and lt: "last_timestamp s \<le> this_timestamp s"
    by (simp_all add: clock_inv_def)
  have this': "this_timestamp s' = clock_of cfg rnd s"
    using tick_bootstrap(9)[OF P0 _ t] tick_post(7)[OF P0 _ ir t]
    by (cases "last_timestamp s = 0") simp_all
  show "this_timestamp s' = clock_of cfg rnd s" by (rule this')
  show "this_timestamp s \<le> this_timestamp s'" using this' C(1) by simp
  have last': "last_timestamp s' = clock_of cfg rnd s \<or> 
     (last_timestamp s' = last_timestamp s \<and> \<not> crossing cfg rnd s)"
  proof (cases "last_timestamp s = 0")
    case True
    then show ?thesis using tick_bootstrap(10)[OF P0 True t] by simp
  next
    case False
    show ?thesis using tick_post(1,8)[OF P0 False ir t] by (auto split: if_splits)
  qed
  then show "clock_inv cfg s'"
  proof
    assume "last_timestamp s' = clock_of cfg rnd s"
    then show ?thesis using this' C(1) lt l0 by (simp add: clock_inv_def)
  next
    assume a: "last_timestamp s' = last_timestamp s \<and> \<not> crossing cfg rnd s"
    then show ?thesis using this' C(1) C(7) lt l0 by (simp add: clock_inv_def)
  qed
qed

lemma clock_inv_init: "clock_inv cfg init_state"
  by (simp add: clock_inv_def init_state_def)

subsection \<open>Invariants along a trace\<close>

lemma sim_trace_invariant:
  fixes f :: "state \<Rightarrow> real"
  assumes step: "\<And>s rnd lg s'. I s \<Longrightarrow> rnd \<in> set rnds \<Longrightarrow> tick cfg rnd s = Inr (lg, s')
                   \<Longrightarrow> I s' \<and> f s \<le> f s'"
    and init: "I s"
  shows "sorted (map f (s # map snd (sim_trace cfg rnds s)))
         \<and> (\<forall>x \<in> set (map snd (sim_trace cfg rnds s)). I x)"
  using step init
proof (induction rnds arbitrary: s)
  case Nil
  then show ?case by simp
next
  case (Cons rnd rnds)
  show ?case
  proof (cases "loop_cond cfg s")
    case False
    then show ?thesis by simp
  next
    case True
    show ?thesis
    proof (cases "tick cfg rnd s")
      case (Inl e)
      then show ?thesis using True by simp
    next
      case (Inr p)
      obtain lg s' where p: "p = (lg, s')" by (cases p)
      have t: "tick cfg rnd s = Inr (lg, s')" using Inr p by simp
      have st: "I s' \<and> f s \<le> f s'" using Cons.prems(1)[OF Cons.prems(2) _ t] by simp
      have ih: "sorted (map f (s' # map snd (sim_trace cfg rnds s')))
         \<and> (\<forall>x \<in> set (map snd (sim_trace cfg rnds s')). I x)"
      proof (rule Cons.IH)
        show "I s'" using st by simp
        show "I s'a \<and> f s \<le> f s'a" if "I s" "rnd \<in> set rnds" "tick cfg rnd s = Inr (lg, s'a)"
          for s rnd lg s'a using Cons.prems(1)[OF that(1) _ that(3)] that(2) by simp
      qed
      have tr: "sim_trace cfg (rnd # rnds) s = (lg, s') # sim_trace cfg rnds s'"
        using True t by simp
      show ?thesis unfolding tr using st ih by force
    qed
  qed
qed

lemma sim_trace_clock:
  assumes st: "startup a = Inr cfg" and r: "\<forall>rnd \<in> set rnds. 0 \<le> rnd \<and> rnd < 1"
    and inv: "clock_inv cfg s"
  shows "sorted (map this_timestamp (s # map snd (sim_trace cfg rnds s)))"
    "\<forall>x \<in> set (map snd (sim_trace cfg rnds s)). clock_inv cfg x"
proof -
  have "sorted (map this_timestamp (s # map snd (sim_trace cfg rnds s)))
         \<and> (\<forall>x \<in> set (map snd (sim_trace cfg rnds s)). clock_inv cfg x)"
  proof (rule sim_trace_invariant[where I = "clock_inv cfg"])
    show "clock_inv cfg s" by (rule inv)
    show "clock_inv cfg s' \<and> this_timestamp s \<le> this_timestamp s'"
      if "clock_inv cfg s" "rnd \<in> set rnds" "tick cfg rnd s = Inr (lg, s')" for s rnd lg s'
      using tick_clock_inv(1,2)[OF st _ that(1) that(3)] r that(2) by simp
  qed
  then show "sorted (map this_timestamp (s # map snd (sim_trace cfg rnds s)))"
    "\<forall>x \<in> set (map snd (sim_trace cfg rnds s)). clock_inv cfg x" by simp_all
qed






subsection \<open>When an iteration completes\<close>

lemma report_step_total:
  assumes "fund_shares s + mint s \<noteq> 0" "0 \<le> py_int td" "py_int td < 3652059 * 86400"
    "mgmt_fee cfg < 1"
  shows "\<exists>lg s'. report_step cfg s np sk upd sc disp tp td = Inr (lg, s')"
  using assms
  by (cases np) (simp_all add: report_step_def period_summary_def pretty_delta_def py_div_def
      py_pow_def Let_def)

lemma tick_total:
  assumes st: "startup a = Inr cfg"
    and sh: "0 < fund_shares s" and m0: "last_timestamp s = 0 \<longrightarrow> mint s = 0"
    and c0: "last_timestamp s \<noteq> 0 \<longrightarrow> clock_of cfg rnd s \<noteq> 0"
    and pd: "0 \<le> py_int (delta_of cfg rnd s)" "py_int (delta_of cfg rnd s) < 3652059 * 86400"
  shows "\<exists>lg s'. tick cfg rnd s = Inr (lg, s')"
proof -
  note S = startup_InrD[OF st]
  have P0: "mgmt_fee_period cfg \<noteq> 0" using S(4) by simp
  have ir: "0 < inflation_rate cfg" using inflation_ge_one[OF st] by simp
  let ?s1 = "s\<lparr>this_timestamp := clock_of cfg rnd s\<rparr>"
  let ?tp = "py_int (proposed cfg rnd s / real_of_int (mgmt_fee_period cfg))"
  have "\<exists>s2 np sk upd sc disp.
          mint_step cfg ?s1 (crossing cfg rnd s) (delta_of cfg rnd s)
             = Inr (s2, np, sk, upd, sc, disp) \<and> fund_shares s2 + mint s2 \<noteq> 0"
  proof (cases "last_timestamp s = 0")
    case True
    then show ?thesis using sh m0 by (auto simp add: mint_step_boot)
  next
    case False
    have "0 < fund_shares s * scalar_of cfg rnd s"
      using sh ir by (simp add: scalar_of_def)
    moreover have "fund_shares s + fund_shares s * (scalar_of cfg rnd s - 1)
                     = fund_shares s * scalar_of cfg rnd s"
      by (simp add: algebra_simps)
    ultimately have "fund_shares s + fund_shares s * (scalar_of cfg rnd s - 1) \<noteq> 0"
      by linarith
    then show ?thesis using False c0 ir P0 sh
      by (auto simp add: mint_step_def py_div_def py_pow_def scalar_of_def)
  qed
  then obtain s2 np sk upd sc disp where
    m: "mint_step cfg ?s1 (crossing cfg rnd s) (delta_of cfg rnd s)
             = Inr (s2, np, sk, upd, sc, disp)" and nz: "fund_shares s2 + mint s2 \<noteq> 0"
    by blast
  from report_step_total[OF nz pd S(2)] obtain lg s' where
    "report_step cfg s2 np sk upd sc disp ?tp (delta_of cfg rnd s) = Inr (lg, s')" by blast
  then have "tick cfg rnd s = Inr (lg, s')"
    using m by (simp add: tick_def clock_step_eq[OF P0] delta_of_def)
  then show ?thesis by blast
qed

subsection \<open>Evaluation of the example runs\<close>

lemmas consts_defs = fund_value_def init_shares_def customer_shares_def sim_periods_def
  xlm_price_def stroop_per_tx_def stroop_per_xlm_def this_tx_fee_def init_customer_value_def

lemmas eval_defs = startup_def percentage_def positive_int_def py_div_def py_pow_def py_int_def
  pretty_delta_def tick_def clock_step_def mint_step_def report_step_def period_summary_def
  loop_cond_def init_state_def Let_def consts_defs


lemma half_day_startup: "startup half_day_args = Inr half_day_cfg"
  by (simp add: eval_defs half_day_args_def half_day_cfg_def)

lemma throttled_startup: "startup throttled_args = Inr throttled_cfg"
  by (simp add: eval_defs throttled_args_def throttled_cfg_def)

lemma half_day_run:
  "map tick_view (sim_trace half_day_cfg [1/2, 1/2, 1/2, 1/2] init_state) =
     [(True, False, 43200, 43200, 1000, 0),
      (True, False, 86400, 86400, 2000, 9/2000),
      (False, False, 129600, 129600, 4000, 9/1000),
      (True, False, 172800, 172800, 8000, 27/2000)]"
  by (simp add: eval_defs half_day_cfg_def tick_view_def powr_half_sqrt)

lemma half_day_scalars:
  "map (shares_scalar \<circ> fst) (sim_trace half_day_cfg [1/2, 1/2, 1/2, 1/2] init_state) =
     [None, Some 2, Some 2, Some 2]"
  by (simp add: eval_defs half_day_cfg_def powr_half_sqrt)



subsection \<open>The product of the growth factors of a stretch\<close>

lemma growth_product_Nil: "growth_product [] = 1"
  by (simp add: growth_product_def List.map_filter_simps)

lemma growth_product_Cons:
  "growth_product ((lg, s) # tr) =
     (case shares_scalar lg of None \<Rightarrow> growth_product tr | Some sc \<Rightarrow> sc * growth_product tr)"
  by (simp add: growth_product_def List.map_filter_simps split: option.splits)

lemma telescoping:
  assumes st: "startup a = Inr cfg" and d: "clock_drift cfg = 0"
    and c: "last_timestamp s = this_timestamp s"
    and post: "last_timestamp s \<noteq> 0"
    and ns: "\<forall>x \<in> set (sim_trace cfg rnds s). \<not> skipped (fst x)"
  shows "growth_product (sim_trace cfg rnds s) =
     inflation_rate cfg powr
       ((this_timestamp (last (s # map snd (sim_trace cfg rnds s))) - this_timestamp s)
          / real_of_int (mgmt_fee_period cfg))"
  using c post ns
proof (induction rnds arbitrary: s)
  case Nil
  have "inflation_rate cfg \<noteq> 0" using inflation_ge_one[OF st] by simp
  then show ?case by (simp add: growth_product_Nil)
next
  case (Cons rnd rnds)
  note S = startup_InrD[OF st]
  have P0: "mgmt_fee_period cfg \<noteq> 0" using S(4) by simp
  have ir: "0 < inflation_rate cfg" using inflation_ge_one[OF st] by simp
  show ?case
  proof (cases "loop_cond cfg s \<and> (\<exists>lg s'. tick cfg rnd s = Inr (lg, s'))")
    case False
    have "sim_trace cfg (rnd # rnds) s = []"
      using False by (cases "tick cfg rnd s") auto
    then show ?thesis using ir by (simp add: growth_product_Nil)
  next
    case True
    then obtain lg s' where t: "tick cfg rnd s = Inr (lg, s')" and lc: "loop_cond cfg s" by blast
    have tr: "sim_trace cfg (rnd # rnds) s = (lg, s') # sim_trace cfg rnds s'"
      using lc t by simp
    note T = tick_post[OF P0 Cons.prems(2) ir t]
    have nsk: "\<not> skipped lg" using Cons.prems(3) unfolding tr by simp
    have c': "last_timestamp s' = this_timestamp s'" using T(7,8) nsk by simp
    have post': "last_timestamp s' \<noteq> 0" using c' T(7,14) by simp
    have sc: "shares_scalar lg = Some (inflation_rate cfg powr
        ((this_timestamp s' - this_timestamp s) / real_of_int (mgmt_fee_period cfg)))"
      using T(3,7) Cons.prems(1) d by (simp add: scalar_of_def delta_of_def)
    have ih: "growth_product (sim_trace cfg rnds s') =
       inflation_rate cfg powr
        ((this_timestamp (last (s' # map snd (sim_trace cfg rnds s'))) - this_timestamp s')
          / real_of_int (mgmt_fee_period cfg))"
    proof (rule Cons.IH[OF c' post'])
      show "\<forall>x\<in>set (sim_trace cfg rnds s'). \<not> skipped (fst x)"
        using Cons.prems(3) unfolding tr by simp
    qed
    have l: "last (s # map snd (sim_trace cfg (rnd # rnds) s))
               = last (s' # map snd (sim_trace cfg rnds s'))"
      unfolding tr by simp
    show ?thesis
      unfolding l unfolding tr growth_product_Cons sc ih
      by (simp add: powr_add[symmetric] add_divide_distrib[symmetric])
  qed
qed

subsection \<open>The clock never goes back\<close>

text \<open>
  Claim C9. For every accepted configuration and every run, the clock
  (\<open>this_timestamp\<close>) is non-decreasing across ticks: the clock a tick leaves, after
  any snap to a period boundary, is at least the clock the previous tick left, also when
  the previous tick was skipped and did not advance \<open>last_timestamp\<close>. The run is any
  list of values of \<open>random.random()\<close>, each in \<open>[0, 1)\<close>; the clocks listed are the
  initial one and the one each completed tick leaves.
\<close>

theorem clock_non_decreasing:
  assumes "startup a = Inr cfg" and "\<forall>rnd \<in> set rnds. 0 \<le> rnd \<and> rnd < 1"
  shows "sorted (map this_timestamp (init_state # map snd (sim_trace cfg rnds init_state)))"
  by (rule sim_trace_clock(1)[OF assms clock_inv_init])

text \<open>
  The witness: the \<open>throttled\<close> run, with a last wait of 28800.5 seconds. The second
  tick is skipped and leaves \<open>last_timestamp\<close> behind; the third proposes the clock
  86400.5 and is snapped down to 86400.
\<close>

theorem clock_non_decreasing_witness:
  "startup throttled_args = Inr throttled_cfg \<and>
   map (skipped \<circ> fst) (sim_trace throttled_cfg [1/2, 1/2, 3/4] init_state) = [False, True, True] \<and>
   map (last_timestamp \<circ> snd) (sim_trace throttled_cfg [1/2, 1/2, 3/4] init_state)
     = [28800, 28800, 86400] \<and>
   map this_timestamp (init_state # map snd (sim_trace throttled_cfg [1/2, 1/2, 3/4] init_state))
     = [0, 28800, 57600, 86400] \<and>
   sorted (map this_timestamp
     (init_state # map snd (sim_trace throttled_cfg [1/2, 1/2, 3/4] init_state)))"
proof -
  have r: "\<forall>rnd \<in> set [1/2, 1/2, 3/4 :: real]. 0 \<le> rnd \<and> rnd < 1" by simp
  have v: "map (skipped \<circ> fst) (sim_trace throttled_cfg [1/2, 1/2, 3/4] init_state)
             = [False, True, True]"
    "map (last_timestamp \<circ> snd) (sim_trace throttled_cfg [1/2, 1/2, 3/4] init_state)
             = [28800, 28800, 86400]"
    "map this_timestamp (init_state # map snd (sim_trace throttled_cfg [1/2, 1/2, 3/4] init_state))
             = [0, 28800, 57600, 86400]"
    by (simp_all add: eval_defs throttled_cfg_def)
  from clock_non_decreasing[OF throttled_startup r] v throttled_startup
  show ?thesis by blast
qed

subsection \<open>Shares and transaction fees never decrease\<close>




subsection \<open>Telescoping of the growth factors\<close>

lemma half_day_boundary_reached:
  "map snd (sim_trace half_day_cfg [1/2, 1/2] init_state) ! 1 = half_day_boundary"
  by (simp add: eval_defs half_day_cfg_def half_day_boundary_def powr_half_sqrt)

text \<open>
  Claim C2, as amended. For every run with zero \<open>clock_drift\<close> and every stretch of
  ticks none of which is skipped, starting from a state after the bootstrap whose clock
  is committed (\<open>last_timestamp = this_timestamp\<close>, as after a boundary tick that
  follows the bootstrap, or after the bootstrap tick itself): the product of the growth factors
  \<open>inflation_rate ^ (time_delta / mgmt_fee_period)\<close> of the ticks equals
  \<open>inflation_rate ^ ((c' - c) / mgmt_fee_period)\<close>, where \<open>c\<close> is the clock the
  stretch starts from and \<open>c'\<close> the clock it ends at. So the product over the ticks of
  a fee period that starts at a committed boundary and ends at the boundary one period
  later is exactly \<open>inflation_rate\<close>. The first period is not such a stretch: it starts
  at the clock of the bootstrap tick, not at zero.
\<close>

theorem growth_factors_telescope:
  assumes "startup a = Inr cfg" and "clock_drift cfg = 0"
    and "last_timestamp s = this_timestamp s" and "last_timestamp s \<noteq> 0"
    and "\<forall>x \<in> set (sim_trace cfg rnds s). \<not> skipped (fst x)"
  shows "growth_product (sim_trace cfg rnds s) =
           inflation_rate cfg powr
             ((this_timestamp (last (s # map snd (sim_trace cfg rnds s))) - this_timestamp s)
                / real_of_int (mgmt_fee_period cfg)) \<and>
         (this_timestamp (last (s # map snd (sim_trace cfg rnds s))) - this_timestamp s
            = real_of_int (mgmt_fee_period cfg)
          \<longrightarrow> growth_product (sim_trace cfg rnds s) = inflation_rate cfg)"
proof -
  note T = telescoping[OF assms]
  have P: "real_of_int (mgmt_fee_period cfg) \<noteq> 0" using startup_InrD(4)[OF assms(1)] by simp
  have ir: "0 \<le> inflation_rate cfg" using inflation_ge_one[OF assms(1)] by simp
  show ?thesis
  proof (intro conjI impI)
    show "growth_product (sim_trace cfg rnds s) =
           inflation_rate cfg powr
             ((this_timestamp (last (s # map snd (sim_trace cfg rnds s))) - this_timestamp s)
                / real_of_int (mgmt_fee_period cfg))" by (rule T)
    assume "this_timestamp (last (s # map snd (sim_trace cfg rnds s))) - this_timestamp s
            = real_of_int (mgmt_fee_period cfg)"
    then show "growth_product (sim_trace cfg rnds s) = inflation_rate cfg"
      unfolding T using P ir by (simp add: powr_one)
  qed
qed

theorem growth_factors_telescope_witness:
  "startup half_day_args = Inr half_day_cfg \<and> clock_drift half_day_cfg = 0 \<and>
   last_timestamp half_day_boundary = this_timestamp half_day_boundary \<and>
   last_timestamp half_day_boundary = 86400 \<and>
   map tick_view (sim_trace half_day_cfg [1/2, 1/2] half_day_boundary) =
     [(False, False, 129600, 129600, 4000, 9/1000),
      (True, False, 172800, 172800, 8000, 27/2000)] \<and>
   map (shares_scalar \<circ> fst) (sim_trace half_day_cfg [1/2, 1/2] half_day_boundary)
     = [Some 2, Some 2] \<and>
   growth_product (sim_trace half_day_cfg [1/2, 1/2] half_day_boundary)
     = inflation_rate half_day_cfg"
proof -
  have d: "clock_drift half_day_cfg = 0" by (simp add: half_day_cfg_def)
  have c: "last_timestamp half_day_boundary = this_timestamp half_day_boundary"
    "last_timestamp half_day_boundary = 86400"
    by (simp_all add: half_day_boundary_def)
  have p: "last_timestamp half_day_boundary \<noteq> 0" by (simp add: half_day_boundary_def)
  have v: "map tick_view (sim_trace half_day_cfg [1/2, 1/2] half_day_boundary) =
     [(False, False, 129600, 129600, 4000, 9/1000),
      (True, False, 172800, 172800, 8000, 27/2000)]"
    "map (shares_scalar \<circ> fst) (sim_trace half_day_cfg [1/2, 1/2] half_day_boundary)
     = [Some 2, Some 2]"
    by (simp_all add: eval_defs half_day_cfg_def half_day_boundary_def tick_view_def
        powr_half_sqrt)
  have n: "\<forall>x \<in> set (sim_trace half_day_cfg [1/2, 1/2] half_day_boundary). \<not> skipped (fst x)"
    by (simp add: eval_defs half_day_cfg_def half_day_boundary_def)
  have e: "this_timestamp (last (half_day_boundary #
              map snd (sim_trace half_day_cfg [1/2, 1/2] half_day_boundary)))
            - this_timestamp half_day_boundary = real_of_int (mgmt_fee_period half_day_cfg)"
    by (simp add: eval_defs half_day_cfg_def half_day_boundary_def powr_half_sqrt)
  from growth_factors_telescope[OF half_day_startup d c(1) p n] e
  have "growth_product (sim_trace half_day_cfg [1/2, 1/2] half_day_boundary)
     = inflation_rate half_day_cfg" by blast
  with half_day_startup d c v show ?thesis by blast
qed

text \<open>
  The first period of the \<open>half_day\<close> run: the bootstrap tick at twelve hours, which
  has no growth factor, then the boundary tick at the end of the day. No tick is skipped
  and the drift is zero; the product of the growth factors is 2, the inflation rate is 4.
\<close>

theorem first_period_counterexample:
  "startup half_day_args = Inr half_day_cfg \<and> clock_drift half_day_cfg = 0 \<and>
   map tick_view (sim_trace half_day_cfg [1/2, 1/2] init_state) =
     [(True, False, 43200, 43200, 1000, 0), (True, False, 86400, 86400, 2000, 9/2000)] \<and>
   map (shares_scalar \<circ> fst) (sim_trace half_day_cfg [1/2, 1/2] init_state) = [None, Some 2] \<and>
   growth_product (sim_trace half_day_cfg [1/2, 1/2] init_state) = 2 \<and>
   inflation_rate half_day_cfg = 4"
  by (simp add: half_day_startup)
     (simp add: eval_defs half_day_cfg_def tick_view_def growth_product_def
        List.map_filter_simps powr_half_sqrt)

subsection \<open>Boundary ticks and the throttle\<close>


lemma throttled_states_reached:
  "map snd (sim_trace throttled_cfg [1/2, 1/2] init_state) = [throttled_started, throttled_skipped]"
  by (simp add: eval_defs throttled_cfg_def throttled_started_def throttled_skipped_def)

lemma half_day_started_reached:
  "map snd (sim_trace half_day_cfg [1/2] init_state) = [half_day_started]"
  by (simp add: eval_defs half_day_cfg_def half_day_started_def)












subsection \<open>Ticks by their position in a run\<close>




subsection \<open>Every boundary crossed is forced\<close>



subsection \<open>Validation of the noise\<close>

lemma startup_rejects_larger_noise:
  assumes "arg_mint a < arg_noise a"
  shows "\<exists>e. startup a = Inl e"
  using assms
  by (auto simp: startup_def percentage_def positive_int_def py_div_def split: sum.splits)

lemma startup_noise_check:
  assumes "0 \<le> arg_fee a" "arg_fee a < 1" "0 < arg_period a" "0 < arg_mint a" "0 < arg_noise a"
  shows "startup a = (if arg_noise a > arg_mint a then Inl ArgumentTypeError
     else Inr \<lparr>mgmt_fee = arg_fee a, inflation_rate = 1 / (1 - arg_fee a),
             mgmt_fee_period = arg_period a * 60 * 60 * 24,
             mint_period = arg_mint a, mint_period_noise = arg_noise a,
             clock_drift = arg_drift a, fee_tolerance = arg_tolerance a\<rparr>)"
  using assms
  by (simp add: startup_def percentage_def positive_int_def py_div_def)

text \<open>
  Claim C3 says that a noise equal to the mint period is rejected before the simulation
  starts. The check of line 83 is \<open>mint_period_noise > mint_period\<close>, under a message
  that says the noise must be less than the mint period: with \<open>--mint 300 --noise 300\<close>
  the configuration is accepted and the loop runs.
\<close>

theorem equal_noise_accepted:
  "arg_noise equal_noise_args = arg_mint equal_noise_args \<and>
   startup equal_noise_args = Inr equal_noise_cfg \<and>
   map tick_view (sim_trace equal_noise_cfg [1/2] init_state)
     = [(True, False, 300, 300, 1000, 0)] \<and>
   main equal_noise_args [1/2] =
     Running \<lparr>fund_shares = 1000, this_timestamp = 300, last_timestamp = 300,
       earnings = 0, tx_fees = 0, num_mints = 0, num_skips = 0, mint = 0\<rparr>"
proof -
  have s: "startup equal_noise_args = Inr equal_noise_cfg"
    by (simp add: eval_defs equal_noise_args_def default_args_def equal_noise_cfg_def)
  show ?thesis
    by (simp add: main_def s)
       (simp add: eval_defs equal_noise_args_def default_args_def equal_noise_cfg_def
          tick_view_def)
qed

subsection \<open>A fee of one\<close>

text \<open>
  Claim C5 says that no division is undefined for an accepted fee. \<open>percentage\<close>
  accepts 1.0, and line 75 then divides by \<open>1.0 - 1.0\<close>: the script raises
  ZeroDivisionError before the loop, whatever the random values.
\<close>

theorem full_fee_division_by_zero:
  "percentage (arg_fee full_fee_args) = Inr 1 \<and>
   startup full_fee_args = Inl ZeroDivisionError \<and>
   main full_fee_args rnds = Raised ZeroDivisionError"
  by (simp add: main_def startup_def percentage_def positive_int_def py_div_def
      full_fee_args_def default_args_def)

subsection \<open>The bootstrap tick\<close>

lemma wait_positive:
  assumes st: "startup a = Inr cfg" and r: "0 \<le> rnd"
    and pos: "mint_period_noise cfg < mint_period cfg \<or> 0 < rnd"
  shows "0 < wait_of cfg rnd"
proof -
  note S = startup_InrD[OF st]
  have n: "0 < real_of_int (mint_period_noise cfg)" using S(6) by simp
  have le: "real_of_int (mint_period_noise cfg) \<le> real_of_int (mint_period cfg)"
    using S(7) by simp
  have e: "wait_of cfg rnd = (real_of_int (mint_period cfg) - real_of_int (mint_period_noise cfg))
     + rnd * 2 * real_of_int (mint_period_noise cfg)"
    by (simp add: wait_of_def algebra_simps)
  from pos show ?thesis
  proof
    assume "mint_period_noise cfg < mint_period cfg"
    then have "0 < real_of_int (mint_period cfg) - real_of_int (mint_period_noise cfg)" by simp
    moreover have "0 \<le> rnd * 2 * real_of_int (mint_period_noise cfg)" using r n by simp
    ultimately show ?thesis unfolding e by linarith
  next
    assume "0 < rnd"
    then have "0 < rnd * 2 * real_of_int (mint_period_noise cfg)" using n by simp
    then show ?thesis unfolding e using le by linarith
  qed
qed

text \<open>
  The first tick of a run, when it completes: the mint is 0, the tick counts as a new
  period, it is not skipped, it commits the clock, and its summary shows no mint.
  It completes when \<open>pretty_delta\<close> can format its drift-adjusted time delta.
\<close>

lemma bootstrap_tick_result:
  assumes st: "startup a = Inr cfg" and t: "tick cfg rnd init_state = Inr (lg, s')"
  shows "mint s' = 0" "fund_shares s' = init_shares" "new_period lg" "\<not> skipped lg"
    "last_timestamp s' = this_timestamp s'" "tx_fees s' = 0"
    "\<exists>sm. summary lg = Some sm \<and> sum_mints sm = 0 \<and> sum_start sm"
proof -
  have P0: "mgmt_fee_period cfg \<noteq> 0" using startup_InrD(4)[OF st] by simp
  have b: "last_timestamp init_state = 0" by (simp add: init_state_def)
  note T = tick_bootstrap[OF P0 b t]
  show "mint s' = 0" "fund_shares s' = init_shares" "new_period lg" "\<not> skipped lg"
    "last_timestamp s' = this_timestamp s'" "tx_fees s' = 0"
    using T(1,2,6-10) by (simp_all add: init_state_def)
  from T(13) show "\<exists>sm. summary lg = Some sm \<and> sum_mints sm = 0 \<and> sum_start sm"
    by (auto simp: init_state_def)
qed

lemma bootstrap_tick_completes:
  assumes st: "startup a = Inr cfg"
    and pd: "0 \<le> py_int (delta_of cfg rnd init_state)"
      "py_int (delta_of cfg rnd init_state) < 3652059 * 86400"
  shows "\<exists>lg s'. tick cfg rnd init_state = Inr (lg, s')"
  by (rule tick_total[OF st _ _ _ pd]) (simp_all add: init_state_def init_shares_def)

lemma bootstrap_clock_positive:
  assumes st: "startup a = Inr cfg" and r: "0 \<le> rnd"
    and pos: "mint_period_noise cfg < mint_period cfg \<or> 0 < rnd"
    and t: "tick cfg rnd init_state = Inr (lg, s')"
  shows "0 < this_timestamp s'" "last_timestamp s' = this_timestamp s'"
proof -
  have P: "0 < mgmt_fee_period cfg" using startup_InrD(4)[OF st] by simp
  note C = clock_of_facts[OF P wait_nonneg[OF st r] clock_inv_init]
  have w: "0 < proposed cfg rnd init_state"
    using wait_positive[OF st r pos] by (simp add: proposed_def init_state_def)
  have "0 < clock_of cfg rnd init_state"
  proof (cases "crossing cfg rnd init_state")
    case True
    from C(2)[OF True] show ?thesis by (simp add: init_state_def)
  next
    case False
    from C(5)[OF False] w show ?thesis by simp
  qed
  then show "0 < this_timestamp s'"
    using tick_clock_inv(3)[OF st r clock_inv_init t] by simp
  show "last_timestamp s' = this_timestamp s'" by (rule bootstrap_tick_result(5)[OF st t])
qed

text \<open>
  Claim C8 says that the first tick emits its summary and commits the clock for every
  accepted configuration. With \<open>--drift -2\<close> the drift-adjusted delta of the first tick
  is \<open>-300\<close> seconds; the log line of line 172 formats it with \<open>pretty_delta\<close>, where
  \<open>datetime(1,1,1) + timedelta(seconds=-300)\<close> raises OverflowError. The tick has no
  summary and commits nothing: the script stops there.
\<close>

theorem backward_drift_bootstrap_raises:
  "startup backward_args = Inr backward_cfg \<and>
   delta_of backward_cfg (1/2) init_state = - 300 \<and>
   pretty_delta (- 300) = Inl OverflowError \<and>
   tick backward_cfg (1/2) init_state = Inl OverflowError \<and>
   main backward_args [1/2] = Raised OverflowError"
proof -
  have s: "startup backward_args = Inr backward_cfg"
    by (simp add: eval_defs backward_args_def default_args_def backward_cfg_def)
  have t: "tick backward_cfg (1/2) init_state = Inl OverflowError"
    by (simp add: eval_defs backward_cfg_def)
  have d: "delta_of backward_cfg (1/2) init_state = - 300"
    by (simp add: delta_of_def clock_of_def crossing_def proposed_def wait_of_def py_int_def
        backward_cfg_def init_state_def)
  have p: "pretty_delta (- 300) = Inl OverflowError"
    by (simp add: pretty_delta_def py_int_def)
  have m: "main backward_args [1/2] = Raised OverflowError"
    by (simp add: main_def s t loop_cond_def sim_periods_def)
       (simp add: init_state_def backward_cfg_def)
  from s d p t m show ?thesis by blast
qed

text \<open>
  Claim C10 says that the clock of the bootstrap tick is strictly positive. It is when
  the noise is less than the mint period, as the message of line 84 requires
  (\<open>bootstrap_clock_positive\<close>). Line 83 accepts a noise equal to the mint period;
  then a value 0.0 of \<open>random.random()\<close> gives a wait of zero: the bootstrap tick ends
  at clock 0 and commits \<open>last_timestamp = 0\<close>, and the next tick is a bootstrap tick
  again.
\<close>

theorem equal_noise_bootstrap_at_zero:
  "startup equal_noise_args = Inr equal_noise_cfg \<and>
   wait_of equal_noise_cfg 0 = 0 \<and>
   map tick_view (sim_trace equal_noise_cfg [0] init_state) = [(True, False, 0, 0, 1000, 0)] \<and>
   map tick_view (sim_trace equal_noise_cfg [0, 1/2] init_state)
     = [(True, False, 0, 0, 1000, 0), (True, False, 300, 300, 1000, 0)] \<and>
   map (shares_scalar \<circ> fst) (sim_trace equal_noise_cfg [0, 1/2] init_state) = [None, None]"
proof -
  have s: "startup equal_noise_args = Inr equal_noise_cfg"
    by (simp add: eval_defs equal_noise_args_def default_args_def equal_noise_cfg_def)
  have w: "wait_of equal_noise_cfg 0 = 0" by (simp add: wait_of_def equal_noise_cfg_def)
  show ?thesis
    by (simp add: s w del: sim_trace.simps)
       (simp add: eval_defs equal_noise_cfg_def tick_view_def)
qed

end
